theory Spec2Isabelle
  imports Main "HOL-Library.List_Lexorder"
begin

section \<open>Time values\<close>

text \<open>
  The source works with naive \<^verbatim>\<open>datetime\<close> and \<^verbatim>\<open>timedelta\<close> objects. A naive
  datetime is a point on a uniform timeline with a resolution of one microsecond (every day
  has 86400 seconds), so it is represented by the number of microseconds since midnight of the
  first day of the calendar; a timedelta is a number of microseconds. Comparison, subtraction
  of two datetimes and addition of a timedelta are then the operations of \<open>int\<close>.
  The calendar date (year, month, day) is only ever used as a whole by the source, to go to
  midnight of the same day, so it is represented by the day number. The range limit of
  Python's datetime (years 1 to 9999) is not part of the model.
\<close>

type_synonym datetime = int
type_synonym timedelta = int

definition date_of :: "datetime \<Rightarrow> int" where
  "date_of t = t div 86400000000"

definition hour_of :: "datetime \<Rightarrow> int" where
  "hour_of t = (t div 3600000000) mod 24"



definition microsecond_of :: "datetime \<Rightarrow> int" where
  "microsecond_of t = t mod 1000000"

text \<open>The constructor \<^verbatim>\<open>datetime(year, month, day, hour, minute, second, microsecond)\<close>,
  with the date given as a day number.\<close>

definition mk_datetime :: "int \<Rightarrow> int \<Rightarrow> int \<Rightarrow> int \<Rightarrow> int \<Rightarrow> datetime" where
  "mk_datetime d h m s us = d * 86400000000 + h * 3600000000 + m * 60000000 + s * 1000000 + us"

section \<open>Data model\<close>

text \<open>The three models of \<^verbatim>\<open>base_models.py\<close>: a row of each table is a record. An event
  type and an event carry their primary key; an occurrence refers to its event by that key.\<close>

record EventType =
  et_id :: nat
  abbr :: string
  label :: string

record Event =
  ev_id :: nat
  title :: string
  description :: string
  event_type :: nat

record Occurrence =
  event :: nat
  start_time :: datetime
  end_time :: datetime

text \<open>The database: one list of rows per table, in insertion order.\<close>

record store =
  event_types :: "EventType list"
  events :: "Event list"
  occurrences :: "Occurrence list"

text \<open>The exceptions: \<^verbatim>\<open>IntegrityError\<close> and \<^verbatim>\<open>MultipleObjectsReturned\<close> are Django's,
  \<^verbatim>\<open>ValueError\<close> is what a library of Python raises on a bad argument, and
  \<^verbatim>\<open>InvalidSpecification\<close> is the error that the specification names for malformed
  recurrence parameters. No statement of the sources raises one.\<close>

datatype error = IntegrityError | MultipleObjectsReturned | ValueError | InvalidSpecification

text \<open>What a call does: it returns a value, raises, or never returns. Every operation
  that writes is a function from the store to an outcome and the store it leaves behind.\<close>

datatype 'a outcome = Returns 'a | Raises error | Hangs

text \<open>One call after another: the second runs on the value and the store of the first,
  unless the first raises or does not return.\<close>

definition and_then ::
  "'a outcome \<times> store \<Rightarrow> ('a \<Rightarrow> store \<Rightarrow> 'b outcome \<times> store) \<Rightarrow> 'b outcome \<times> store" where
  "and_then r f =
     (case r of
        (Returns x, st) \<Rightarrow> f x st
      | (Raises err, st) \<Rightarrow> (Raises err, st)
      | (Hangs, st) \<Rightarrow> (Hangs, st))"

section \<open>Recurrence parameters\<close>

text \<open>The frequency constants of \<^verbatim>\<open>dateutil.rrule\<close>.\<close>

datatype freq = YEARLY | MONTHLY | WEEKLY | DAILY | HOURLY | MINUTELY | SECONDLY

text \<open>The keyword arguments \<^verbatim>\<open>**rrule_params\<close>. A key that is absent, or present with
  the value \<^verbatim>\<open>None\<close>, is \<open>None\<close>. The secondary constraints (\<^verbatim>\<open>byweekday\<close>,
  \<^verbatim>\<open>bymonth\<close>, ...) are passed through untouched; they live in the extension of the record.\<close>

record rrule_params =
  freq :: "freq option"
  interval :: "int option"
  count :: "int option"
  until :: "datetime option"

text \<open>Python truth values: an integer is true when it is not zero, a datetime is always
  true, \<^verbatim>\<open>None\<close> is false.\<close>

definition truthy_int :: "int option \<Rightarrow> bool" where
  "truthy_int c = (case c of None \<Rightarrow> False | Some n \<Rightarrow> n \<noteq> 0)"

definition truthy_datetime :: "datetime option \<Rightarrow> bool" where
  "truthy_datetime d = (case d of None \<Rightarrow> False | Some t \<Rightarrow> True)"

text \<open>\<^verbatim>\<open>rrule_params.setdefault('freq', rrule.DAILY)\<close>\<close>

definition setdefault_freq :: "'z rrule_params_scheme \<Rightarrow> 'z rrule_params_scheme" where
  "setdefault_freq p = (case freq p of None \<Rightarrow> p\<lparr>freq := Some DAILY\<rparr> | Some f \<Rightarrow> p)"

section \<open>Adding occurrences to an event\<close>

text \<open>\<^verbatim>\<open>self.occurrence_set.create(start_time=..., end_time=...)\<close>: one row, for the event.\<close>

definition occurrence_set_create :: "nat \<Rightarrow> datetime \<Rightarrow> datetime \<Rightarrow> store \<Rightarrow> store" where
  "occurrence_set_create ev s e st =
     st\<lparr>occurrences := occurrences st @ [\<lparr>event = ev, start_time = s, end_time = e\<rparr>]\<rparr>"

text \<open>\<^verbatim>\<open>self.occurrence_set.bulk_create(occurrences)\<close>: all the rows, in the order of the list.\<close>

definition bulk_create :: "Occurrence list \<Rightarrow> store \<Rightarrow> store" where
  "bulk_create os st = st\<lparr>occurrences := occurrences st @ os\<rparr>"

text \<open>
  \<^verbatim>\<open>EventBase.add_occurrences(self, start_time, end_time, **rrule_params)\<close>.
  The iterator \<^verbatim>\<open>rrule.rrule(dtstart=start_time, **rrule_params)\<close> belongs to the
  dateutil library; it is the parameter \<open>rr\<close>, which gives what iterating it to the end does:
  the datetimes it yields, an exception, or no end. The loop collects the new rows in
  memory and the store is written once, after the loop, so nothing is written when the
  iterator raises or does not end.
\<close>

definition add_occurrences ::
  "(datetime \<Rightarrow> 'z rrule_params_scheme \<Rightarrow> datetime list outcome) \<Rightarrow>
   nat \<Rightarrow> datetime \<Rightarrow> datetime \<Rightarrow> 'z rrule_params_scheme \<Rightarrow> store \<Rightarrow> unit outcome \<times> store" where
  "add_occurrences rr self start_t end_t rrule_params st =
     (if \<not> (truthy_int (count rrule_params) \<or> truthy_datetime (until rrule_params))
      then (Returns (), occurrence_set_create self start_t end_t st)
      else
        let params = setdefault_freq rrule_params;
            delta = end_t - start_t
        in case rr start_t params of
             Returns evs \<Rightarrow>
               (Returns (),
                bulk_create
                  (map (\<lambda>ev. \<lparr>event = self, start_time = ev, end_time = ev + delta\<rparr>) evs) st)
           | Raises e \<Rightarrow> (Raises e, st)
           | Hangs \<Rightarrow> (Hangs, st))"

section \<open>Queries\<close>

text \<open>The fields of an occurrence and their values, for ordering.\<close>

datatype occurrence_field = F_event | F_start_time | F_end_time

fun field_value :: "occurrence_field \<Rightarrow> Occurrence \<Rightarrow> int" where
  "field_value F_event oc = int (event oc)"
| "field_value F_start_time oc = start_time oc"
| "field_value F_end_time oc = end_time oc"

text \<open>The inner class \<^verbatim>\<open>Meta\<close> of a model, as far as a query depends on it: the default
  ordering, a tuple of field names, empty when the class names none.\<close>

record model_meta =
  ordering_fields :: "occurrence_field list"

text \<open>\<^verbatim>\<open>OccurrenceBase.Meta\<close> in \<^verbatim>\<open>base_models.py\<close>:
  \<^verbatim>\<open>ordering = ('start_time', 'end_time')\<close>.\<close>

definition OccurrenceBase_Meta :: model_meta where
  "OccurrenceBase_Meta = \<lparr>ordering_fields = [F_start_time, F_end_time]\<rparr>"

text \<open>
  The \<^verbatim>\<open>Meta\<close> of the concrete model \<^verbatim>\<open>Occurrence\<close> in \<^verbatim>\<open>models.py\<close>:
  \<^verbatim>\<open>class Meta: app_label = 'swingtime'\<close>. In Django a model that declares a
  \<^verbatim>\<open>Meta\<close> of its own takes its options from that class alone; the options of the
  \<^verbatim>\<open>Meta\<close> of an abstract base class carry over only when the new class extends it
  (\<^verbatim>\<open>class Meta(OccurrenceBase.Meta)\<close>). This one does not, and it names no ordering.
\<close>

definition Occurrence_Meta :: model_meta where
  "Occurrence_Meta = \<lparr>ordering_fields = []\<rparr>"

text \<open>A queryset is represented by the list of rows it evaluates to: the rows in the order
  of the fields of the default ordering. Rows that agree on these fields, and so all rows
  when there is no default ordering, keep the order of the table, as in a scan of a table
  without deletions (the database is free to return them in any order).\<close>

definition order_by :: "occurrence_field list \<Rightarrow> Occurrence list \<Rightarrow> Occurrence list" where
  "order_by fs rows = sort_key (\<lambda>oc. map (\<lambda>f. field_value f oc) fs) rows"

text \<open>\<^verbatim>\<open>Occurrence.objects\<close>, the manager's queryset of all rows; \<open>meta\<close> is the
  \<^verbatim>\<open>Meta\<close> of the concrete occurrence model.\<close>

definition objects :: "model_meta \<Rightarrow> store \<Rightarrow> Occurrence list" where
  "objects meta st = order_by (ordering_fields meta) (occurrences st)"

text \<open>\<^verbatim>\<open>self.occurrence_set\<close>, the occurrences of one event.\<close>

definition occurrence_set :: "model_meta \<Rightarrow> nat \<Rightarrow> store \<Rightarrow> Occurrence list" where
  "occurrence_set meta self st = filter (\<lambda>oc. event oc = self) (objects meta st)"

text \<open>\<^verbatim>\<open>EventBase.upcoming_occurrences\<close>; \<open>now\<close> is the value of \<^verbatim>\<open>datetime.now()\<close>.\<close>

definition upcoming_occurrences :: "model_meta \<Rightarrow> nat \<Rightarrow> datetime \<Rightarrow> store \<Rightarrow> Occurrence list" where
  "upcoming_occurrences meta self now st =
     filter (\<lambda>oc. start_time oc \<ge> now) (occurrence_set meta self st)"

text \<open>\<^verbatim>\<open>EventBase.next_occurrence\<close>: \<^verbatim>\<open>upcoming[0] if upcoming else None\<close>.\<close>

definition next_occurrence :: "model_meta \<Rightarrow> nat \<Rightarrow> datetime \<Rightarrow> store \<Rightarrow> Occurrence option" where
  "next_occurrence meta self now st =
     (let upcoming = upcoming_occurrences meta self now st
      in if upcoming \<noteq> [] then Some (hd upcoming) else None)"

text \<open>The filter of \<^verbatim>\<open>_daily_occurrences\<close>, three \<^verbatim>\<open>Q\<close> objects joined by \<^verbatim>\<open>|\<close>,
  on the start \<open>s\<close> and the end \<open>e\<close> of an occurrence.\<close>

definition overlaps :: "datetime \<Rightarrow> datetime \<Rightarrow> datetime \<Rightarrow> datetime \<Rightarrow> bool" where
  "overlaps start end s e =
     ((s \<ge> start \<and> s \<le> end) \<or> (e \<ge> start \<and> e \<le> end) \<or> (s < start \<and> e > end))"

text \<open>The module function \<^verbatim>\<open>_daily_occurrences(obj, dt=None)\<close>. A \<^verbatim>\<open>date\<close> and a
  \<^verbatim>\<open>datetime\<close> are always true, so \<^verbatim>\<open>dt or datetime.now()\<close> is \<^verbatim>\<open>dt\<close> unless it
  is \<^verbatim>\<open>None\<close>; only the date of \<^verbatim>\<open>dt\<close> is used.\<close>

definition daily_occurrences_of :: "Occurrence list \<Rightarrow> datetime option \<Rightarrow> datetime \<Rightarrow> Occurrence list" where
  "daily_occurrences_of obj dt now =
     (let dt = (case dt of Some d \<Rightarrow> d | None \<Rightarrow> now);
          start = mk_datetime (date_of dt) 0 0 0 0;
          end = mk_datetime (date_of start) 23 59 59 (microsecond_of start)
      in filter (\<lambda>oc. overlaps start end (start_time oc) (end_time oc)) obj)"

text \<open>\<^verbatim>\<open>OccurrenceManager.daily_occurrences(self, dt=None, event=None)\<close>. A model instance
  is always true, so the second filter applies whenever an event is given; the event is
  given by its key.\<close>

definition daily_occurrences ::
  "model_meta \<Rightarrow> datetime option \<Rightarrow> nat option \<Rightarrow> datetime \<Rightarrow> store \<Rightarrow> Occurrence list" where
  "daily_occurrences meta dt ev now st =
     (let qs = daily_occurrences_of (objects meta st) dt now
      in case ev of Some e \<Rightarrow> filter (\<lambda>oc. event oc = e) qs | None \<Rightarrow> qs)"

text \<open>\<^verbatim>\<open>EventBase.daily_occurrences(self, dt=None)\<close>\<close>

definition event_daily_occurrences ::
  "model_meta \<Rightarrow> nat \<Rightarrow> datetime option \<Rightarrow> datetime \<Rightarrow> store \<Rightarrow> Occurrence list" where
  "event_daily_occurrences meta self dt now st =
     daily_occurrences_of (occurrence_set meta self st) dt now"

text \<open>The plain interval test that the specification compares the filter with:
  \<^verbatim>\<open>start <= window_end AND end >= window_start\<close>.\<close>

definition simple_overlap_spec :: "datetime \<Rightarrow> datetime \<Rightarrow> datetime \<Rightarrow> datetime \<Rightarrow> bool" where
  "simple_overlap_spec window_start window_end s e = (s \<le> window_end \<and> e \<ge> window_start)"

section \<open>Creating an event\<close>

text \<open>A key that no row of the table has yet.\<close>

definition fresh_id :: "nat list \<Rightarrow> nat" where
  "fresh_id ids = Suc (fold max ids 0)"

text \<open>
  \<^verbatim>\<open>event_type_cls.objects.get_or_create(abbr=a, label=l)\<close> is Django's: every keyword
  argument is a condition of the lookup. A row that has both the abbreviation and the label
  is returned with \<^verbatim>\<open>False\<close>. Without such a row a new one is inserted and returned with
  \<^verbatim>\<open>True\<close>, unless the insertion violates the constraint \<^verbatim>\<open>unique=True\<close> of the
  column \<^verbatim>\<open>abbr\<close>: then the lookup, repeated, still finds nothing, and the
  \<^verbatim>\<open>IntegrityError\<close> of the database is raised.
\<close>

definition get_or_create :: "string \<Rightarrow> string \<Rightarrow> store \<Rightarrow> (EventType \<times> bool) outcome \<times> store" where
  "get_or_create a l st =
     (case filter (\<lambda>t. abbr t = a \<and> label t = l) (event_types st) of
        [] \<Rightarrow>
          if a \<in> set (map abbr (event_types st)) then (Raises IntegrityError, st)
          else
            let t = \<lparr>et_id = fresh_id (map et_id (event_types st)), abbr = a, label = l\<rparr>
            in (Returns (t, True), st\<lparr>event_types := event_types st @ [t]\<rparr>)
      | [t] \<Rightarrow> (Returns (t, False), st)
      | _ \<Rightarrow> (Raises MultipleObjectsReturned, st))"

text \<open>\<^verbatim>\<open>event_cls.objects.create(title=..., description=..., event_type=...)\<close>\<close>

definition events_create :: "string \<Rightarrow> string \<Rightarrow> EventType \<Rightarrow> store \<Rightarrow> Event \<times> store" where
  "events_create ttl descr t st =
     (let ev = \<lparr>ev_id = fresh_id (map ev_id (events st)), title = ttl, description = descr,
                event_type = et_id t\<rparr>
      in (ev, st\<lparr>events := events st @ [ev]\<rparr>))"

text \<open>The argument \<^verbatim>\<open>event_type\<close>: an \<^verbatim>\<open>EventType\<close> object or a 2-tuple.\<close>

datatype event_type_arg = Instance EventType | Tuple string string

text \<open>The settings object of \<^verbatim>\<open>swingtime.conf\<close>, which is not among the sources; the one
  setting that \<^verbatim>\<open>create_event\<close> reads is a parameter.\<close>

record swingtime_settings =
  DEFAULT_OCCURRENCE_DURATION :: timedelta

text \<open>
  \<^verbatim>\<open>inner_create_event\<close>, which \<^verbatim>\<open>models.py\<close> binds to \<^verbatim>\<open>create_event\<close>. The
  statements run one after the other without a transaction, so an exception leaves behind
  what the statements before it have written.
\<close>

definition create_event ::
  "swingtime_settings \<Rightarrow> (datetime \<Rightarrow> 'z rrule_params_scheme \<Rightarrow> datetime list outcome) \<Rightarrow> datetime \<Rightarrow>
   string \<Rightarrow> event_type_arg \<Rightarrow> string \<Rightarrow> datetime option \<Rightarrow> datetime option \<Rightarrow>
   'z rrule_params_scheme \<Rightarrow> store \<Rightarrow> Event outcome \<times> store" where
  "create_event conf rr now ttl et_arg descr start_opt end_opt rrule_params st =
     and_then
       (case et_arg of
          Tuple a l \<Rightarrow> and_then (get_or_create a l st) (\<lambda>(t, created) st1. (Returns t, st1))
        | Instance t \<Rightarrow> (Returns t, st))
       (\<lambda>t st1.
          let (ev, st2) = events_create ttl descr t st1;
              start_t = (case start_opt of
                           Some s \<Rightarrow> s
                         | None \<Rightarrow> mk_datetime (date_of now) (hour_of now) 0 0 0);
              end_t = (case end_opt of
                         Some e \<Rightarrow> e
                       | None \<Rightarrow> start_t + DEFAULT_OCCURRENCE_DURATION conf)
          in and_then (add_occurrences rr (ev_id ev) start_t end_t rrule_params st2)
               (\<lambda>u st3. (Returns ev, st3)))"

section \<open>The rule iterator\<close>

text \<open>
  Modelled from the spec: the iterator \<^verbatim>\<open>rrule.rrule\<close> of the dateutil library, which the
  source imports and which is not among the sources. The specification describes it as
  "generate the anchor timestamps of the rule (every date/time matching
  frequency+interval+secondary constraints starting at \<^verbatim>\<open>start_time\<close>, stopping at
  \<^verbatim>\<open>count\<close> anchors or at the last anchor \<open>\<le>\<close> \<^verbatim>\<open>until\<close>)", and a rule with neither
  bound as an infinite sequence.

  Which date/time matches next is a matter of the calendar and of the secondary
  constraints: \<open>next_match p t\<close> is the first date/time after \<open>t\<close> that matches the frequency,
  the interval and the secondary constraints of \<open>p\<close>. The anchors are \<open>dtstart\<close>, the match
  after it, the match after that, and so on.
\<close>

definition anchor :: "(datetime \<Rightarrow> datetime) \<Rightarrow> datetime \<Rightarrow> nat \<Rightarrow> datetime" where
  "anchor nxt dtstart k = (nxt ^^ k) dtstart"

text \<open>The anchors up to \<^verbatim>\<open>until\<close>, from the anchor \<open>t\<close> on: the iteration goes on as
  long as the anchor at hand is \<open>\<le>\<close> \<^verbatim>\<open>until\<close>. It has no other end, so under a rule whose
  matches do not move past \<^verbatim>\<open>until\<close> it does not return (\<open>None\<close>).\<close>

partial_function (option) anchors_until ::
  "(datetime \<Rightarrow> datetime) \<Rightarrow> datetime \<Rightarrow> datetime \<Rightarrow> datetime list option" where
  "anchors_until nxt u t =
     (if t \<le> u then Option.bind (anchors_until nxt u (nxt t)) (\<lambda>r. Some (t # r)) else Some [])"

declare anchors_until.simps [code]

definition rrule_spec ::
  "('z rrule_params_scheme \<Rightarrow> datetime \<Rightarrow> datetime) \<Rightarrow>
   datetime \<Rightarrow> 'z rrule_params_scheme \<Rightarrow> datetime list outcome" where
  "rrule_spec next_match dtstart p =
     (case until p of
        None \<Rightarrow>
          (case count p of
             None \<Rightarrow> Hangs
           | Some n \<Rightarrow> Returns (map (anchor (next_match p) dtstart) [0..<nat n]))
      | Some u \<Rightarrow>
          (case count p of
             None \<Rightarrow>
               (case anchors_until (next_match p) u dtstart of
                  None \<Rightarrow> Hangs
                | Some evs \<Rightarrow> Returns evs)
           | Some n \<Rightarrow>
               Returns (takeWhile (\<lambda>t. t \<le> u) (map (anchor (next_match p) dtstart) [0..<nat n]))))"

text \<open>A rule of frequency and interval alone, for a frequency whose period is the fixed
  duration \<open>period\<close> (a second, a minute, an hour, a day, a week): the next match is
  \<open>interval\<close> periods later. The interval is 1 when it is not given.\<close>

definition every :: "timedelta \<Rightarrow> 'z rrule_params_scheme \<Rightarrow> datetime \<Rightarrow> datetime" where
  "every period p t = t + (case interval p of None \<Rightarrow> 1 | Some i \<Rightarrow> i) * period"


section \<open>Properties of \<open>add_occurrences\<close>\<close>

lemma add_occurrences_single:
  "\<not> truthy_int (count p) \<Longrightarrow> \<not> truthy_datetime (until p) \<Longrightarrow>
   add_occurrences rr ev s e p st =
     (Returns (), st\<lparr>occurrences := occurrences st @ [\<lparr>event = ev, start_time = s, end_time = e\<rparr>]\<rparr>)"
  by (simp add: add_occurrences_def occurrence_set_create_def)

text \<open>
  Claim C1. When the recurrence parameters contain neither \<^verbatim>\<open>count\<close> nor \<^verbatim>\<open>until\<close>,
  \<open>add_occurrences\<close> returns normally after adding exactly one occurrence to the store, whose
  start is the given start time and whose end is the given end time. The result is the same
  for every behaviour of the rule iterator, also one that raises or never ends: the rule is
  not expanded.
\<close>

theorem add_occurrences_without_bound:
  "count p = None \<Longrightarrow> until p = None \<Longrightarrow>
   add_occurrences rr ev s e p st =
     (Returns (), st\<lparr>occurrences := occurrences st @ [\<lparr>event = ev, start_time = s, end_time = e\<rparr>]\<rparr>)"
  by (rule add_occurrences_single) (simp_all add: truthy_int_def truthy_datetime_def)

theorem add_occurrences_without_bound_witness:
  "count \<lparr>freq = Some WEEKLY, interval = Some 2, count = None, until = None\<rparr> = None \<and>
   until \<lparr>freq = Some WEEKLY, interval = Some 2, count = None, until = None\<rparr> = None \<and>
   add_occurrences (rrule_spec (every 604800000000)) 7 64800000000 70200000000
       \<lparr>freq = Some WEEKLY, interval = Some 2, count = None, until = None\<rparr>
       \<lparr>event_types = [], events = [], occurrences = []\<rparr> =
     (Returns (),
      \<lparr>event_types = [], events = [],
       occurrences = [\<lparr>event = 7, start_time = 64800000000, end_time = 70200000000\<rparr>]\<rparr>)"
  using add_occurrences_without_bound
    [of "\<lparr>freq = Some WEEKLY, interval = Some 2, count = None, until = None\<rparr>"
        "rrule_spec (every 604800000000)" 7 64800000000 70200000000
        "\<lparr>event_types = [], events = [], occurrences = []\<rparr>"]
  by simp

text \<open>
  Claim C9. With \<^verbatim>\<open>count = 0\<close> and no \<^verbatim>\<open>until\<close> the guard, which tests the truth
  value of \<^verbatim>\<open>count\<close> and \<^verbatim>\<open>until\<close>, treats the parameters like a rule without
  bound: exactly one occurrence with the given start and end time is added, not zero.
\<close>

theorem add_occurrences_count_zero:
  "count p = Some 0 \<Longrightarrow> until p = None \<Longrightarrow>
   add_occurrences rr ev s e p st =
     (Returns (), st\<lparr>occurrences := occurrences st @ [\<lparr>event = ev, start_time = s, end_time = e\<rparr>]\<rparr>)"
  by (rule add_occurrences_single) (simp_all add: truthy_int_def truthy_datetime_def)

theorem add_occurrences_count_zero_witness:
  "count \<lparr>freq = Some DAILY, interval = None, count = Some 0, until = None\<rparr> = Some 0 \<and>
   until \<lparr>freq = Some DAILY, interval = None, count = Some 0, until = None\<rparr> = None \<and>
   length (occurrences (snd (add_occurrences (rrule_spec (every 86400000000)) 1 0 3600000000
       \<lparr>freq = Some DAILY, interval = None, count = Some 0, until = None\<rparr>
       \<lparr>event_types = [], events = [], occurrences = []\<rparr>))) = 1"
  using add_occurrences_count_zero
    [of "\<lparr>freq = Some DAILY, interval = None, count = Some 0, until = None\<rparr>"
        "rrule_spec (every 86400000000)" 1 0 3600000000
        "\<lparr>event_types = [], events = [], occurrences = []\<rparr>"]
  by simp




subsection \<open>With the rule iterator of the specification\<close>

lemma anchor_0: "anchor nxt t 0 = t"
  by (simp add: anchor_def)


lemma anchor_shift: "anchor nxt t (Suc k) = anchor nxt (nxt t) k"
  by (simp add: anchor_def funpow_swap1)


lemma map_anchor_Suc:
  "map (anchor nxt t) [0..<Suc n] = t # map (anchor nxt (nxt t)) [0..<n]"
proof -
  have "map (anchor nxt t) [0..<Suc n] = anchor nxt t 0 # map (anchor nxt t) (map Suc [0..<n])"
    by (simp only: upt_conv_Cons[of 0 "Suc n"] map_Suc_upt list.map zero_less_Suc)
  also have "\<dots> = t # map (anchor nxt (nxt t)) [0..<n]"
    by (simp add: anchor_0 anchor_shift)
  finally show ?thesis .
qed

lemma anchors_until_returns:
  assumes fwd: "\<forall>t. t < nxt t"
  shows "\<exists>n. anchors_until nxt u t = Some (map (anchor nxt t) [0..<n]) \<and>
             (\<forall>k<n. anchor nxt t k \<le> u) \<and> u < anchor nxt t n"
proof (induction "nat (u + 1 - t)" arbitrary: t rule: less_induct)
  case less
  show ?case
  proof (cases "t \<le> u")
    case False
    then have "anchors_until nxt u t = Some (map (anchor nxt t) [0..<0])"
      by (simp add: anchors_until.simps)
    moreover from False have "u < anchor nxt t 0" by (simp add: anchor_0)
    ultimately show ?thesis by blast
  next
    case True
    from fwd have "t < nxt t" by simp
    with True have "nat (u + 1 - nxt t) < nat (u + 1 - t)" by simp
    from less[OF this] obtain n where
      n: "anchors_until nxt u (nxt t) = Some (map (anchor nxt (nxt t)) [0..<n])"
        "\<forall>k<n. anchor nxt (nxt t) k \<le> u" "u < anchor nxt (nxt t) n"
      by blast
    have "anchors_until nxt u t = Some (t # map (anchor nxt (nxt t)) [0..<n])"
      using True n(1) by (subst anchors_until.simps) simp
    then have "anchors_until nxt u t = Some (map (anchor nxt t) [0..<Suc n])"
      by (simp only: map_anchor_Suc)
    moreover have "\<forall>k<Suc n. anchor nxt t k \<le> u"
    proof (intro allI impI)
      fix k assume "k < Suc n"
      then show "anchor nxt t k \<le> u"
        using True n(2) by (cases k) (simp_all add: anchor_0 anchor_shift)
    qed
    moreover have "u < anchor nxt t (Suc n)"
      using n(3) by (simp add: anchor_shift)
    ultimately show ?thesis by blast
  qed
qed

lemma setdefault_freq_eq:
  "setdefault_freq p = p\<lparr>freq := Some (case freq p of None \<Rightarrow> DAILY | Some f \<Rightarrow> f)\<rparr>"
  by (simp add: setdefault_freq_def split: option.splits)

lemma setdefault_freq_fields [simp]:
  "count (setdefault_freq p) = count p" "until (setdefault_freq p) = until p"
  "interval (setdefault_freq p) = interval p"
  by (simp_all add: setdefault_freq_eq)







lemma every_forward:
  "0 < period \<Longrightarrow> interval p = None \<or> (\<exists>i. interval p = Some i \<and> 0 < i) \<Longrightarrow> t < every period p t"
  by (auto simp: every_def)


text \<open>The guard of \<open>add_occurrences\<close> keeps the unbounded rule away from the iterator: under a
  rule that moves forward the call returns.\<close>

lemma add_occurrences_returns:
  assumes "\<forall>t. t < next_match (setdefault_freq p) t"
  shows "fst (add_occurrences (rrule_spec next_match) ev s e p st) = Returns ()"
proof (cases "truthy_int (count p) \<or> truthy_datetime (until p)")
  case False
  then show ?thesis by (simp add: add_occurrences_def)
next
  case True
  show ?thesis
  proof (cases "until p")
    case None
    with True obtain c where "count p = Some c"
      by (auto simp: truthy_int_def truthy_datetime_def split: option.splits)
    with None True show ?thesis
      by (simp add: add_occurrences_def rrule_spec_def Let_def)
  next
    case (Some u)
    from anchors_until_returns[OF assms, of u s] obtain evs where
      "anchors_until (next_match (setdefault_freq p)) u s = Some evs" by blast
    with Some True show ?thesis
      by (cases "count p") (simp_all add: add_occurrences_def rrule_spec_def Let_def)
  qed
qed

text \<open>With an \<^verbatim>\<open>until\<close> before the start time the iterator of the specification yields
  nothing: the call returns and the store is as it was.\<close>

lemma add_occurrences_until_before_start:
  assumes "until p = Some u" and "u < s"
  shows "add_occurrences (rrule_spec next_match) ev s e p st = (Returns (), st)"
proof -
  have "rrule_spec next_match s (setdefault_freq p) = Returns []"
  proof (cases "count p")
    case None
    with assms show ?thesis by (simp add: rrule_spec_def anchors_until.simps)
  next
    case (Some c)
    have "takeWhile (\<lambda>t. t \<le> u) (map (anchor (next_match (setdefault_freq p)) s) [0..<nat c]) = []"
      using assms(2) by (cases "nat c") (simp_all add: upt_conv_Cons anchor_0 del: upt_Suc)
    with Some assms(1) show ?thesis by (simp add: rrule_spec_def)
  qed
  moreover have "truthy_datetime (until p)" using assms(1) by (simp add: truthy_datetime_def)
  ultimately show ?thesis
    by (simp add: add_occurrences_def bulk_create_def Let_def)
qed

section \<open>Properties of the queries\<close>

lemma date_of_midnight: "date_of (mk_datetime d 0 0 0 0) = d"
  by (simp add: date_of_def mk_datetime_def)

lemma microsecond_of_midnight: "microsecond_of (mk_datetime d 0 0 0 0) = 0"
  by (simp add: microsecond_of_def mk_datetime_def)

lemma daily_occurrences_of_Some:
  "daily_occurrences_of obj (Some d) now =
     filter (\<lambda>oc. overlaps (mk_datetime (date_of d) 0 0 0 0) (mk_datetime (date_of d) 23 59 59 0)
                      (start_time oc) (end_time oc)) obj"
  by (simp add: daily_occurrences_of_def date_of_midnight microsecond_of_midnight)

text \<open>
  Claim C4. For a day given by any datetime \<open>d\<close> on it, and every store,
  \<open>daily_occurrences\<close> returns exactly the rows of the occurrence table that satisfy the
  three-clause test against the window from 00:00:00 to 23:59:59 of that day (the start is
  in the window, or the end is in the window, or the start is before and the end after the
  window) and, when an event is given, belong to that event. This holds whatever the default
  ordering of the occurrence model is; the ordering only arranges these rows.
\<close>

theorem daily_occurrences_window:
  "(let window_start = mk_datetime (date_of d) 0 0 0 0;
        window_end = mk_datetime (date_of d) 23 59 59 0;
        selected = (\<lambda>oc.
          ((window_start \<le> start_time oc \<and> start_time oc \<le> window_end) \<or>
           (window_start \<le> end_time oc \<and> end_time oc \<le> window_end) \<or>
           (start_time oc < window_start \<and> window_end < end_time oc)) \<and>
          (ev = None \<or> ev = Some (event oc)))
    in daily_occurrences meta (Some d) ev now st =
         order_by (ordering_fields meta) (filter selected (occurrences st)) \<and>
       set (daily_occurrences meta (Some d) ev now st) = {oc \<in> set (occurrences st). selected oc})"
proof (cases ev)
  case None
  then show ?thesis
    by (simp add: daily_occurrences_def daily_occurrences_of_Some objects_def order_by_def
        filter_sort overlaps_def Let_def)
next
  case (Some e)
  then show ?thesis
    by (auto simp: daily_occurrences_def daily_occurrences_of_Some objects_def order_by_def
        filter_sort overlaps_def Let_def conj_commute
        intro!: arg_cong[where f="sort_key _"] filter_cong)
qed

text \<open>\<^verbatim>\<open>EventBase.daily_occurrences\<close> gives what the manager gives for the event.\<close>

lemma event_daily_occurrences_eq:
  "event_daily_occurrences meta self dt now st = daily_occurrences meta dt (Some self) now st"
  by (simp add: event_daily_occurrences_def daily_occurrences_def daily_occurrences_of_def
      occurrence_set_def Let_def conj_commute)

text \<open>On an occurrence that does not end before it starts and a window that does not end
  before it starts, the filter and the plain interval test agree.\<close>

lemma overlaps_simple:
  "s \<le> e \<Longrightarrow> window_start \<le> window_end \<Longrightarrow>
   overlaps window_start window_end s e = simple_overlap_spec window_start window_end s e"
  by (auto simp: overlaps_def simple_overlap_spec_def)

text \<open>
  Claim C8. The three-clause filter and the plain interval test
  \<^verbatim>\<open>start <= window_end AND end >= window_start\<close> are different functions of the start,
  the end and the window: there are values on which one holds and the other does not.
\<close>

theorem overlaps_differs_from_simple:
  "\<exists>s e window_start window_end.
     overlaps window_start window_end s e \<noteq> simple_overlap_spec window_start window_end s e"
proof -
  have "overlaps 3 5 4 0 \<noteq> simple_overlap_spec 3 5 4 0"
    by (simp add: overlaps_def simple_overlap_spec_def)
  then show ?thesis by blast
qed

lemma sorted_hd_least:
  "sorted (map f xs) \<Longrightarrow> x \<in> set xs \<Longrightarrow> f (hd xs) \<le> f x"
  by (cases xs) auto

lemma sorted_upcoming:
  "sorted (map (\<lambda>oc. map (\<lambda>f. field_value f oc) (ordering_fields meta))
             (upcoming_occurrences meta self now st))"
  by (simp add: upcoming_occurrences_def occurrence_set_def objects_def order_by_def sorted_filter)

lemma set_upcoming:
  "set (upcoming_occurrences meta self now st) =
     {oc \<in> set (occurrences st). event oc = self \<and> now \<le> start_time oc}"
  by (auto simp: upcoming_occurrences_def occurrence_set_def objects_def order_by_def)

lemma next_occurrence_None:
  "next_occurrence meta self now st = None \<longleftrightarrow>
     \<not> (\<exists>oc \<in> set (occurrences st). event oc = self \<and> now \<le> start_time oc)"
proof -
  have "next_occurrence meta self now st = None \<longleftrightarrow>
      set (upcoming_occurrences meta self now st) = {}"
    by (simp add: next_occurrence_def Let_def)
  then show ?thesis unfolding set_upcoming by blast
qed

text \<open>Under the default ordering that \<^verbatim>\<open>OccurrenceBase.Meta\<close> names, the occurrence
  that \<open>next_occurrence\<close> returns is one of the event's occurrences that start now or later,
  and none of them comes before it in the order by start time, then end time.\<close>

lemma next_occurrence_least:
  assumes "next_occurrence OccurrenceBase_Meta self now st = Some oc"
  shows "oc \<in> set (occurrences st) \<and> event oc = self \<and> now \<le> start_time oc \<and>
      (\<forall>oc' \<in> set (occurrences st). event oc' = self \<and> now \<le> start_time oc' \<longrightarrow>
         start_time oc < start_time oc' \<or>
         (start_time oc = start_time oc' \<and> end_time oc \<le> end_time oc'))"
proof -
  from assms have ne: "upcoming_occurrences OccurrenceBase_Meta self now st \<noteq> []"
    and hd: "oc = hd (upcoming_occurrences OccurrenceBase_Meta self now st)"
    by (auto simp: next_occurrence_def Let_def split: if_splits)
  from ne hd have "oc \<in> set (upcoming_occurrences OccurrenceBase_Meta self now st)" by simp
  then have 1: "oc \<in> set (occurrences st) \<and> event oc = self \<and> now \<le> start_time oc"
    unfolding set_upcoming by simp
  have 2: "\<forall>oc' \<in> set (occurrences st). event oc' = self \<and> now \<le> start_time oc' \<longrightarrow>
         start_time oc < start_time oc' \<or>
         (start_time oc = start_time oc' \<and> end_time oc \<le> end_time oc')"
  proof (intro ballI impI)
    fix oc'
    assume "oc' \<in> set (occurrences st)" "event oc' = self \<and> now \<le> start_time oc'"
    then have "oc' \<in> set (upcoming_occurrences OccurrenceBase_Meta self now st)"
      unfolding set_upcoming by simp
    then have "map (\<lambda>f. field_value f oc) (ordering_fields OccurrenceBase_Meta)
        \<le> map (\<lambda>f. field_value f oc') (ordering_fields OccurrenceBase_Meta)"
      unfolding hd using sorted_upcoming by (rule sorted_hd_least[rotated])
    then show "start_time oc < start_time oc' \<or>
         (start_time oc = start_time oc' \<and> end_time oc \<le> end_time oc')"
      by (auto simp: OccurrenceBase_Meta_def)
  qed
  from 1 2 show ?thesis by blast
qed

text \<open>Without a default ordering the rows come in the order of the table.\<close>

lemma order_by_Nil: "order_by [] rows = rows"
  by (simp add: order_by_def sort_key_const)

lemma next_occurrence_unordered:
  "next_occurrence Occurrence_Meta self now st =
     (case filter (\<lambda>oc. event oc = self \<and> now \<le> start_time oc) (occurrences st) of
        [] \<Rightarrow> None
      | oc # rest \<Rightarrow> Some oc)"
  by (simp add: next_occurrence_def upcoming_occurrences_def occurrence_set_def objects_def
      Occurrence_Meta_def order_by_Nil Let_def conj_commute split: list.splits)

text \<open>
  Claim C10 holds for an occurrence model that carries the ordering of
  \<^verbatim>\<open>OccurrenceBase.Meta\<close> (lemmas \<open>next_occurrence_None\<close> and \<open>next_occurrence_least\<close>).
  The concrete model \<^verbatim>\<open>Occurrence\<close> of \<^verbatim>\<open>models.py\<close> does not carry it. For an event
  whose occurrence from 9 to 10 was stored before its occurrence from 7 to 8, at the
  current time 5, \<open>next_occurrence\<close> returns the occurrence that starts at 9, although the
  one that starts at 7 is also upcoming.
\<close>

theorem next_occurrence_not_least:
  "next_occurrence Occurrence_Meta 1 5
       \<lparr>event_types = [], events = [],
        occurrences =
          [\<lparr>event = 1, start_time = 9, end_time = 10\<rparr>,
           \<lparr>event = 1, start_time = 7, end_time = 8\<rparr>]\<rparr> =
     Some \<lparr>event = 1, start_time = 9, end_time = 10\<rparr> \<and>
   next_occurrence OccurrenceBase_Meta 1 5
       \<lparr>event_types = [], events = [],
        occurrences =
          [\<lparr>event = 1, start_time = 9, end_time = 10\<rparr>,
           \<lparr>event = 1, start_time = 7, end_time = 8\<rparr>]\<rparr> =
     Some \<lparr>event = 1, start_time = 7, end_time = 8\<rparr>"
  by (simp add: next_occurrence_def upcoming_occurrences_def occurrence_set_def objects_def
      order_by_def Occurrence_Meta_def OccurrenceBase_Meta_def Let_def)

section \<open>Properties of \<open>create_event\<close>\<close>

lemma get_or_create_existing:
  "filter (\<lambda>t. abbr t = a \<and> label t = l) (event_types st) = [t] \<Longrightarrow>
   get_or_create a l st = (Returns (t, False), st)"
  by (simp add: get_or_create_def)

lemma get_or_create_new:
  assumes "a \<notin> set (map abbr (event_types st))"
  shows "get_or_create a l st =
     (Returns (\<lparr>et_id = fresh_id (map et_id (event_types st)), abbr = a, label = l\<rparr>, True),
      st\<lparr>event_types := event_types st @
         [\<lparr>et_id = fresh_id (map et_id (event_types st)), abbr = a, label = l\<rparr>]\<rparr>)"
proof -
  from assms have "filter (\<lambda>t. abbr t = a \<and> label t = l) (event_types st) = []"
    by (auto simp: filter_empty_conv)
  with assms show ?thesis by (simp add: get_or_create_def Let_def)
qed

lemma get_or_create_other_label:
  assumes "a \<in> set (map abbr (event_types st))"
    and "\<forall>t \<in> set (event_types st). abbr t = a \<longrightarrow> label t \<noteq> l"
  shows "get_or_create a l st = (Raises IntegrityError, st)"
proof -
  from assms(2) have "filter (\<lambda>t. abbr t = a \<and> label t = l) (event_types st) = []"
    by (auto simp: filter_empty_conv)
  with assms(1) show ?thesis by (simp add: get_or_create_def)
qed

lemma event_types_add_occurrences:
  "event_types (snd (add_occurrences rr ev s e p st)) = event_types st"
  by (simp add: add_occurrences_def occurrence_set_create_def bulk_create_def Let_def
      split: outcome.splits)

lemma and_then_Returns: "and_then (Returns x, st) f = f x st"
  by (simp add: and_then_def)

lemma event_types_and_then_const:
  "event_types (snd (and_then r (\<lambda>u st3. (Returns ev, st3)))) = event_types (snd r)"
  by (cases r; rename_tac x y; case_tac x) (simp_all add: and_then_def)

lemma create_event_existing_pair:
  assumes "filter (\<lambda>t. abbr t = a \<and> label t = l) (event_types st) = [t]"
  shows "event_types (snd (create_event conf rr now ttl (Tuple a l) descr start_opt end_opt p st))
     = event_types st"
  by (simp add: create_event_def get_or_create_existing[OF assms] and_then_Returns
      events_create_def Let_def event_types_and_then_const event_types_add_occurrences)

lemma create_event_other_label:
  assumes "a \<in> set (map abbr (event_types st))"
    and "\<forall>t \<in> set (event_types st). abbr t = a \<longrightarrow> label t \<noteq> l"
  shows "create_event conf rr now ttl (Tuple a l) descr start_opt end_opt p st =
     (Raises IntegrityError, st)"
  by (simp add: create_event_def get_or_create_other_label[OF assms] and_then_def)

text \<open>The scenario of the specification: from an empty store, a weekly rule with
  \<^verbatim>\<open>count = 3\<close> gives one event type \<^verbatim>\<open>PRAC\<close>, one event and three occurrences a
  week apart, each an hour and a half long.\<close>

lemma scenario_practice:
  "create_event conf (rrule_spec (every 604800000000)) now ''Practice''
       (Tuple ''PRAC'' ''Practice Session'') [] (Some 64800000000) (Some 70200000000)
       \<lparr>freq = Some WEEKLY, interval = None, count = Some 3, until = None\<rparr>
       \<lparr>event_types = [], events = [], occurrences = []\<rparr> =
     (Returns \<lparr>ev_id = 1, title = ''Practice'', description = [], event_type = 1\<rparr>,
      \<lparr>event_types = [\<lparr>et_id = 1, abbr = ''PRAC'', label = ''Practice Session''\<rparr>],
       events = [\<lparr>ev_id = 1, title = ''Practice'', description = [], event_type = 1\<rparr>],
       occurrences =
         [\<lparr>event = 1, start_time = 64800000000, end_time = 70200000000\<rparr>,
          \<lparr>event = 1, start_time = 669600000000, end_time = 675000000000\<rparr>,
          \<lparr>event = 1, start_time = 1274400000000, end_time = 1279800000000\<rparr>]\<rparr>)"
  by (simp add: create_event_def get_or_create_def and_then_def events_create_def fresh_id_def
      add_occurrences_def truthy_int_def setdefault_freq_def rrule_spec_def anchor_def every_def
      bulk_create_def Let_def eval_nat_numeral)

text \<open>
  Claim C6 holds when the tuple repeats the label of the existing event type (lemma
  \<open>create_event_existing_pair\<close>), and in the scenario the event type \<^verbatim>\<open>PRAC\<close> is
  created once (lemma \<open>scenario_practice\<close>). It does not hold regardless of the label:
  with the event type \<^verbatim>\<open>PRAC\<close> stored under the label \<^verbatim>\<open>Practice Session\<close>, a call
  with the tuple \<^verbatim>\<open>('PRAC', 'Drill')\<close> raises \<^verbatim>\<open>IntegrityError\<close>; no event type and no
  event is created, and the existing event type is not used.
\<close>

theorem create_event_same_abbr_other_label:
  "create_event conf rr now ttl (Tuple ''PRAC'' ''Drill'') descr start_opt end_opt p
       \<lparr>event_types = [\<lparr>et_id = 1, abbr = ''PRAC'', label = ''Practice Session''\<rparr>],
        events = [], occurrences = []\<rparr> =
     (Raises IntegrityError,
      \<lparr>event_types = [\<lparr>et_id = 1, abbr = ''PRAC'', label = ''Practice Session''\<rparr>],
       events = [], occurrences = []\<rparr>)"
  by (rule create_event_other_label) simp_all

lemma this_hour_eq: "mk_datetime (date_of now) (hour_of now) 0 0 0 = now - now mod 3600000000"
proof -
  define q where "q = now div 3600000000"
  have "now div 86400000000 = now div (3600000000 * 24)" by simp
  also have "\<dots> = q div 24" unfolding q_def by (rule zdiv_zmult2_eq) simp
  finally have d: "date_of now = q div 24" by (simp add: date_of_def)
  have e: "q = 24 * (q div 24) + q mod 24" by simp
  have "mk_datetime (date_of now) (hour_of now) 0 0 0 =
      q div 24 * 86400000000 + q mod 24 * 3600000000"
    unfolding d by (simp add: mk_datetime_def hour_of_def q_def)
  also have "\<dots> = q * 3600000000" using e by linarith
  also have "\<dots> = now - now mod 3600000000"
    unfolding q_def by (rule minus_mod_eq_div_mult[symmetric])
  finally show ?thesis .
qed



text \<open>What the defaults give in the store, for an event type object and a rule without
  bound: one event, and one occurrence from the start of the current hour, of the default
  duration.\<close>

lemma create_event_default_occurrence:
  assumes "count p = None" and "until p = None"
  shows "create_event conf rr now ttl (Instance t) descr None None p st =
     (Returns \<lparr>ev_id = fresh_id (map ev_id (events st)), title = ttl, description = descr,
               event_type = et_id t\<rparr>,
      st\<lparr>events := events st @
           [\<lparr>ev_id = fresh_id (map ev_id (events st)), title = ttl, description = descr,
             event_type = et_id t\<rparr>],
        occurrences := occurrences st @
           [\<lparr>event = fresh_id (map ev_id (events st)),
             start_time = now - now mod 3600000000,
             end_time = now - now mod 3600000000 + DEFAULT_OCCURRENCE_DURATION conf\<rparr>]\<rparr>)"
proof -
  have "\<not> truthy_int (count p)" "\<not> truthy_datetime (until p)"
    using assms by (simp_all add: truthy_int_def truthy_datetime_def)
  then show ?thesis
    by (simp add: create_event_def and_then_def events_create_def Let_def
        add_occurrences_single this_hour_eq)
qed

end
